theory Spec2Isabelle
  imports Complex_Main
begin

section \<open>Array values\<close>

text \<open>
  The entries of an NDArray are modelled as exact real numbers extended with the three
  IEEE special values that the arithmetic of \<^verbatim>\<open>sampler.py\<close> can produce: the two
  infinities and NaN. Rounding is not modelled: every operation returns the exact real
  result. Zero carries no sign, so a division by zero takes the sign of the numerator.
\<close>

datatype fval = Fin real | PInf | NInf | NaN

fun fneg :: "fval \<Rightarrow> fval" where
  "fneg (Fin x) = Fin (- x)"
| "fneg PInf = NInf"
| "fneg NInf = PInf"
| "fneg NaN = NaN"

fun fadd :: "fval \<Rightarrow> fval \<Rightarrow> fval" where
  "fadd (Fin x) (Fin y) = Fin (x + y)"
| "fadd NaN _ = NaN"
| "fadd _ NaN = NaN"
| "fadd PInf NInf = NaN"
| "fadd NInf PInf = NaN"
| "fadd PInf _ = PInf"
| "fadd NInf _ = NInf"
| "fadd _ PInf = PInf"
| "fadd _ NInf = NInf"

text \<open>The sign of a value: \<open>1\<close>, \<open>-1\<close>, or \<open>0\<close> for zero and NaN.\<close>

fun fsign :: "fval \<Rightarrow> int" where
  "fsign (Fin x) = (if 0 < x then 1 else if x < 0 then - 1 else 0)"
| "fsign PInf = 1"
| "fsign NInf = - 1"
| "fsign NaN = 0"

definition inf_of_sign :: "int \<Rightarrow> fval" where
  "inf_of_sign s = (if 0 < s then PInf else if s < 0 then NInf else NaN)"

fun fmul :: "fval \<Rightarrow> fval \<Rightarrow> fval" where
  "fmul (Fin x) (Fin y) = Fin (x * y)"
| "fmul NaN _ = NaN"
| "fmul _ NaN = NaN"
| "fmul a b = inf_of_sign (fsign a * fsign b)"

fun fdiv :: "fval \<Rightarrow> fval \<Rightarrow> fval" where
  "fdiv (Fin x) (Fin y) = (if y = 0 then inf_of_sign (fsign (Fin x)) else Fin (x / y))"
| "fdiv NaN _ = NaN"
| "fdiv _ NaN = NaN"
| "fdiv (Fin x) _ = Fin 0"
| "fdiv a (Fin y) = inf_of_sign (fsign a * (if y < 0 then - 1 else 1))"
| "fdiv _ _ = NaN"

fun flog :: "fval \<Rightarrow> fval" where
  "flog (Fin x) = (if 0 < x then Fin (ln x) else if x = 0 then NInf else NaN)"
| "flog PInf = PInf"
| "flog NInf = NaN"
| "flog NaN = NaN"

fun flog1p :: "fval \<Rightarrow> fval" where
  "flog1p (Fin x) = (if - 1 < x then Fin (ln (1 + x)) else if x = - 1 then NInf else NaN)"
| "flog1p PInf = PInf"
| "flog1p NInf = NaN"
| "flog1p NaN = NaN"

fun fexpm1 :: "fval \<Rightarrow> fval" where
  "fexpm1 (Fin x) = Fin (exp x - 1)"
| "fexpm1 PInf = PInf"
| "fexpm1 NInf = Fin (- 1)"
| "fexpm1 NaN = NaN"

section \<open>NDArrays\<close>

datatype dtype = Float16 | Float32 | Float64 | UInt8 | Int8 | Int32 | Int64

datatype device = Cpu nat | Gpu nat

record ndarray =
  shape :: "nat list"
  ctx :: device
  dtype :: dtype
  vals :: "fval list"

text \<open>Elementwise operations keep shape, context and element type.\<close>

definition nd_map :: "(fval \<Rightarrow> fval) \<Rightarrow> ndarray \<Rightarrow> ndarray" where
  "nd_map f a = a\<lparr>vals := map f (vals a)\<rparr>"

definition nd_add_scalar :: "ndarray \<Rightarrow> real \<Rightarrow> ndarray" where
  "nd_add_scalar a c = nd_map (\<lambda>v. fadd v (Fin c)) a"

definition nd_mul_scalar :: "ndarray \<Rightarrow> real \<Rightarrow> ndarray" where
  "nd_mul_scalar a c = nd_map (\<lambda>v. fmul v (Fin c)) a"

definition nd_rmul_scalar :: "real \<Rightarrow> ndarray \<Rightarrow> ndarray" where
  "nd_rmul_scalar c a = nd_map (\<lambda>v. fmul (Fin c) v) a"

definition nd_div_scalar :: "ndarray \<Rightarrow> real \<Rightarrow> ndarray" where
  "nd_div_scalar a c = nd_map (\<lambda>v. fdiv v (Fin c)) a"

definition nd_neg :: "ndarray \<Rightarrow> ndarray" where
  "nd_neg a = nd_map fneg a"

definition nd_log :: "ndarray \<Rightarrow> ndarray" where
  "nd_log a = nd_map flog a"

definition nd_log1p :: "ndarray \<Rightarrow> ndarray" where
  "nd_log1p a = nd_map flog1p a"

definition nd_expm1 :: "ndarray \<Rightarrow> ndarray" where
  "nd_expm1 a = nd_map fexpm1 a"

text \<open>
  Division of two arrays. Both operands of the only division in the source come from the
  same array, so they have the same shape and no broadcasting takes place.
\<close>

definition nd_div :: "ndarray \<Rightarrow> ndarray \<Rightarrow> ndarray" where
  "nd_div a b = a\<lparr>vals := map2 fdiv (vals a) (vals b)\<rparr>"

text \<open>
  \<^verbatim>\<open>astype\<close>: the element type changes and every entry is converted by \<open>cast\<close>, the
  conversion function of the array library, which is a parameter of the model.
\<close>

definition astype :: "(dtype \<Rightarrow> fval \<Rightarrow> fval) \<Rightarrow> ndarray \<Rightarrow> dtype \<Rightarrow> ndarray" where
  "astype cast a d = a\<lparr>dtype := d, vals := map (cast d) (vals a)\<rparr>"

text \<open>\<^verbatim>\<open>ndarray.array(xs, ctx=ctx, dtype='int64')\<close> on a flat sequence of integers.\<close>

definition nd_array :: "int list \<Rightarrow> device \<Rightarrow> dtype \<Rightarrow> ndarray" where
  "nd_array xs c d =
     \<lparr>shape = [length xs], ctx = c, dtype = d, vals = map (\<lambda>x. Fin (of_int x)) xs\<rparr>"

section \<open>The unique sampler\<close>

datatype error = ValueError | InvalidArgument

text \<open>
  The extension module \<^verbatim>\<open>log_uniform\<close> is not among the sources. Its generator is
  represented by the stream of variates it produces: \<open>U seed i\<close> is the \<open>i\<close>-th uniform
  variate of the generator seeded with \<open>seed\<close>. The state of a sampler object is the
  position in that stream.
\<close>

record csampler =
  cs_range_max :: int
  cs_seed :: int
  cs_pos :: nat

text \<open>
  Modelled from the spec: the constructor \<^verbatim>\<open>log_uniform.LogUniformSampler(range_max, seed)\<close>,
  which is missing from the sources; the seed sets the state of the generator.
\<close>

definition csampler_init :: "int \<Rightarrow> int \<Rightarrow> csampler" where
  "csampler_init range_max seed = \<lparr>cs_range_max = range_max, cs_seed = seed, cs_pos = 0\<rparr>"

text \<open>
  Modelled from the spec: one draw of the missing generator from the base distribution,
  \<^verbatim>\<open>class = floor(exp(u * ln(range_max+1)) - 1)\<close>, clamped to \<^verbatim>\<open>[0, range_max-1]\<close>.
\<close>

definition draw_class :: "int \<Rightarrow> real \<Rightarrow> int" where
  "draw_class range_max u =
     max 0 (min (range_max - 1) \<lfloor>exp (u * ln (of_int (range_max + 1))) - 1\<rfloor>)"

text \<open>
  Modelled from the spec: the rejection loop of the missing \<^verbatim>\<open>sample_unique\<close>. A drawn
  index is inserted into the accepted set if it is not already present, \<open>attempts\<close> counts
  every draw, and the loop stops when the accepted set reaches size \<open>k\<close>. The accepted set
  is kept in insertion order. A loop that never stops has the value \<open>None\<close>.
\<close>

partial_function (option) draw_loop ::
  "(int \<Rightarrow> nat \<Rightarrow> real) \<Rightarrow> int \<Rightarrow> int \<Rightarrow> int \<Rightarrow> nat \<Rightarrow> int list \<Rightarrow> int \<Rightarrow> (int list \<times> int \<times> nat) option"
where
  "draw_loop U range_max seed k pos acc attempts =
     (if int (length acc) = k then Some (acc, attempts, pos)
      else draw_loop U range_max seed k (Suc pos)
             (if draw_class range_max (U seed pos) \<in> set acc then acc
              else acc @ [draw_class range_max (U seed pos)])
             (attempts + 1))"

text \<open>
  Modelled from the spec: \<^verbatim>\<open>sample_unique(k)\<close> of the missing module \<^verbatim>\<open>log_uniform\<close>. It
  fails with InvalidArgument if \<open>k > range_max\<close> (section 4.1 of the spec) or if \<open>range_max\<close>
  or \<open>k\<close> is not positive (section 7), and runs the rejection loop otherwise.
\<close>

definition sample_unique ::
  "(int \<Rightarrow> nat \<Rightarrow> real) \<Rightarrow> csampler \<Rightarrow> int \<Rightarrow> (error + (int list \<times> int) \<times> csampler) option"
where
  "sample_unique U cs k =
     (if k > cs_range_max cs \<or> cs_range_max cs \<le> 0 \<or> k \<le> 0 then Some (Inl InvalidArgument)
      else map_option (\<lambda>(acc, attempts, pos). Inr ((acc, attempts), cs\<lparr>cs_pos := pos\<rparr>))
             (draw_loop U (cs_range_max cs) (cs_seed cs) k (cs_pos cs) [] 0))"

section \<open>LogUniformSampler\<close>

record sampler =
  num_sampled :: int
  log_range :: real
  csampler_of :: csampler
  out_dtype :: dtype

text \<open>
  \<^verbatim>\<open>__init__\<close>: \<^verbatim>\<open>math.log\<close> raises ValueError unless its argument is positive; the element
  type of the outputs is \<^verbatim>\<open>np.float32\<close> when none is given.
\<close>

definition LogUniformSampler_init :: "int \<Rightarrow> int \<Rightarrow> dtype option \<Rightarrow> int \<Rightarrow> error + sampler" where
  "LogUniformSampler_init range_max num_sampled' dtype' seed =
     (if range_max + 1 \<le> 0 then Inl ValueError
      else Inr \<lparr>num_sampled = num_sampled',
                log_range = ln (of_int (range_max + 1)),
                csampler_of = csampler_init range_max seed,
                out_dtype = (case dtype' of None \<Rightarrow> Float32 | Some d \<Rightarrow> d)\<rparr>)"

text \<open>The two return statements of \<^verbatim>\<open>_prob_helper\<close>, and the method itself.\<close>

definition prob_helper_fast :: "int \<Rightarrow> ndarray \<Rightarrow> ndarray" where
  "prob_helper_fast num_sampled' prob = nd_mul_scalar prob (of_int num_sampled')"

definition prob_helper_general :: "int \<Rightarrow> ndarray \<Rightarrow> ndarray" where
  "prob_helper_general num_tries prob =
     nd_mul_scalar (nd_expm1 (nd_rmul_scalar (of_int num_tries) (nd_log1p (nd_neg prob)))) (- 1)"

definition prob_helper :: "int \<Rightarrow> int \<Rightarrow> ndarray \<Rightarrow> ndarray" where
  "prob_helper num_tries num_sampled' prob =
     (if num_tries = num_sampled' then prob_helper_fast num_sampled' prob
      else prob_helper_general num_tries prob)"

text \<open>
  The expression \<^verbatim>\<open>((cls + 2.0) / (cls + 1.0)).log() / log_range\<close>, which \<^verbatim>\<open>__call__\<close>
  evaluates once on the true classes and once on the sampled classes.
\<close>

definition base_prob :: "real \<Rightarrow> ndarray \<Rightarrow> ndarray" where
  "base_prob log_range' cls =
     nd_div_scalar (nd_log (nd_div (nd_add_scalar cls 2) (nd_add_scalar cls 1))) log_range'"

text \<open>
  \<^verbatim>\<open>__call__\<close> up to the conversion of the outputs: the sampled classes as an int64 array,
  the number of tries, the two expected counts in float64, and the sampler with the
  advanced state of its generator. An exception of \<^verbatim>\<open>sample_unique\<close> propagates.
\<close>

definition call_counts ::
  "(int \<Rightarrow> nat \<Rightarrow> real) \<Rightarrow> (dtype \<Rightarrow> fval \<Rightarrow> fval) \<Rightarrow> sampler \<Rightarrow> ndarray
     \<Rightarrow> (error + (ndarray \<times> int \<times> ndarray \<times> ndarray) \<times> sampler) option"
where
  "call_counts U cast s true_classes =
     (case sample_unique U (csampler_of s) (num_sampled s) of
        None \<Rightarrow> None
      | Some (Inl e) \<Rightarrow> Some (Inl e)
      | Some (Inr ((sampled, num_tries), cs')) \<Rightarrow>
          (let true_cls = astype cast true_classes Float64;
               prob_true = base_prob (log_range s) true_cls;
               count_true = prob_helper num_tries (num_sampled s) prob_true;
               sampled_classes = nd_array sampled (ctx true_classes) Int64;
               sampled_cls_fp64 = astype cast sampled_classes Float64;
               prob_sampled = base_prob (log_range s) sampled_cls_fp64;
               count_sampled = prob_helper num_tries (num_sampled s) prob_sampled
           in Some (Inr ((sampled_classes, num_tries, count_true, count_sampled),
                         s\<lparr>csampler_of := cs'\<rparr>))))"

text \<open>\<^verbatim>\<open>__call__\<close>: the three outputs are converted to the configured element type.\<close>

definition call ::
  "(int \<Rightarrow> nat \<Rightarrow> real) \<Rightarrow> (dtype \<Rightarrow> fval \<Rightarrow> fval) \<Rightarrow> sampler \<Rightarrow> ndarray
     \<Rightarrow> (error + (ndarray \<times> ndarray \<times> ndarray) \<times> sampler) option"
where
  "call U cast s true_classes =
     (case call_counts U cast s true_classes of
        None \<Rightarrow> None
      | Some (Inl e) \<Rightarrow> Some (Inl e)
      | Some (Inr ((sampled_classes, num_tries, count_true, count_sampled), s')) \<Rightarrow>
          Some (Inr ((astype cast sampled_classes (out_dtype s),
                      astype cast count_true (out_dtype s),
                      astype cast count_sampled (out_dtype s)), s')))"


text \<open>An array entry is finite and lies in the closed interval from \<open>lo\<close> to \<open>hi\<close>.\<close>

fun finite_between :: "real \<Rightarrow> real \<Rightarrow> fval \<Rightarrow> bool" where
  "finite_between lo hi (Fin x) = (lo \<le> x \<and> x \<le> hi)"
| "finite_between lo hi _ = False"

section \<open>Elementwise reading of the array operations\<close>

lemma nd_map_simps [simp]:
  "vals (nd_map f a) = map f (vals a)"
  "shape (nd_map f a) = shape a"
  "dtype (nd_map f a) = dtype a"
  "ctx (nd_map f a) = ctx a"
  by (simp_all add: nd_map_def)

lemma fmul_minus_one: "fmul v (Fin (- 1)) = fneg v"
  by (cases v) (simp_all add: inf_of_sign_def)

lemma vals_prob_helper:
  "vals (prob_helper t n prob) =
     map (\<lambda>p. if t = n then fmul p (Fin (of_int n))
              else fneg (fexpm1 (fmul (Fin (of_int t)) (flog1p (fneg p))))) (vals prob)"
  by (simp add: prob_helper_def prob_helper_fast_def prob_helper_general_def nd_mul_scalar_def
      nd_expm1_def nd_rmul_scalar_def nd_log1p_def nd_neg_def fmul_minus_one)

lemma prob_helper_attrs:
  "shape (prob_helper t n prob) = shape prob"
  "dtype (prob_helper t n prob) = dtype prob"
  "ctx (prob_helper t n prob) = ctx prob"
  by (simp_all add: prob_helper_def prob_helper_fast_def prob_helper_general_def nd_mul_scalar_def
      nd_expm1_def nd_rmul_scalar_def nd_log1p_def nd_neg_def)

lemma exp_int_mult_ln:
  fixes y :: real
  assumes "0 < y" "0 \<le> t"
  shows "exp (of_int t * ln y) = y ^ nat t"
proof -
  have "exp (of_nat (nat t) * ln y) = exp (ln y) ^ nat t"
    by (rule exp_of_nat_mult)
  moreover have "(of_nat (nat t) :: real) = of_int t"
    using assms by simp
  ultimately show ?thesis
    using assms by simp
qed

lemma general_elem:
  assumes "x \<le> 1" "0 \<le> t" "x < 1 \<or> 0 < t"
  shows "fneg (fexpm1 (fmul (Fin (of_int t)) (flog1p (fneg (Fin x))))) = Fin (1 - (1 - x) ^ nat t)"
proof (cases "x < 1")
  case True
  then show ?thesis using assms by (simp add: exp_int_mult_ln)
next
  case False
  then have "x = 1" "0 < t" using assms by auto
  then show ?thesis by (simp add: inf_of_sign_def)
qed

lemma map2_same: "map2 f (map g xs) (map h xs) = map (\<lambda>x. f (g x) (h x)) xs"
  by (induction xs) simp_all

lemma vals_base_prob:
  "vals (base_prob lr a) =
     map (\<lambda>v. fdiv (flog (fdiv (fadd v (Fin 2)) (fadd v (Fin 1)))) (Fin lr)) (vals a)"
  by (simp add: base_prob_def nd_div_scalar_def nd_log_def nd_div_def nd_add_scalar_def map2_same)

lemma base_prob_attrs:
  "shape (base_prob lr a) = shape a"
  "dtype (base_prob lr a) = dtype a"
  "ctx (base_prob lr a) = ctx a"
  by (simp_all add: base_prob_def nd_div_scalar_def nd_log_def nd_div_def nd_add_scalar_def)

lemma astype_simps:
  "vals (astype cast a d) = map (cast d) (vals a)"
  "shape (astype cast a d) = shape a"
  "dtype (astype cast a d) = d"
  "ctx (astype cast a d) = ctx a"
  by (simp_all add: astype_def)

lemma prob_elem_Fin:
  assumes "- 1 < c" "lr \<noteq> 0"
  shows "fdiv (flog (fdiv (fadd (Fin c) (Fin 2)) (fadd (Fin c) (Fin 1)))) (Fin lr)
           = Fin (ln ((c + 2) / (c + 1)) / lr)"
proof -
  have "0 < (c + 2) / (c + 1)" using assms by simp
  moreover have "c + 1 \<noteq> 0" using assms by simp
  ultimately show ?thesis using assms by simp
qed

lemma init_Inr:
  "LogUniformSampler_init range_max n dt seed = Inr s \<longleftrightarrow>
     (0 < range_max + 1 \<and>
      s = \<lparr>num_sampled = n, log_range = ln (of_int (range_max + 1)),
           csampler_of = csampler_init range_max seed,
           out_dtype = (case dt of None \<Rightarrow> Float32 | Some d \<Rightarrow> d)\<rparr>)"
  by (auto simp add: LogUniformSampler_init_def)

section \<open>Runs of the sampler\<close>

lemma draw_class_zero: "0 < r \<Longrightarrow> draw_class r 0 = 0"
  by (simp add: draw_class_def)

lemma draw_class_one: "0 < r \<Longrightarrow> draw_class r 1 = r - 1"
  by (simp add: draw_class_def)

lemma sample_unique_const0:
  "sample_unique (\<lambda>_ _. 0) (csampler_init 1 seed) 1
     = Some (Inr (([0], 1), \<lparr>cs_range_max = 1, cs_seed = seed, cs_pos = 1\<rparr>))"
  apply (simp add: sample_unique_def csampler_init_def)
  apply (subst draw_loop.simps, simp add: draw_class_zero)
  apply (subst draw_loop.simps, simp)
  done

text \<open>A generator whose first two variates are 0 and whose later variates are 1.\<close>

lemma sample_unique_reject:
  "sample_unique (\<lambda>_ i. if i < 2 then 0 else 1) (csampler_init 2 seed) 2
     = Some (Inr (([0, 1], 3), \<lparr>cs_range_max = 2, cs_seed = seed, cs_pos = 3\<rparr>))"
  apply (simp add: sample_unique_def csampler_init_def)
  apply (subst draw_loop.simps, simp add: draw_class_zero)
  apply (subst draw_loop.simps, simp add: draw_class_zero)
  apply (subst draw_loop.simps, simp add: draw_class_one)
  apply (subst draw_loop.simps, simp)
  done


lemma call_counts_Inr:
  assumes "sample_unique U (csampler_of s) (num_sampled s) = Some (Inr ((sampled, attempts), cs'))"
  shows "call_counts U cast s tc =
     Some (Inr ((nd_array sampled (ctx tc) Int64, attempts,
                 prob_helper attempts (num_sampled s)
                   (base_prob (log_range s) (astype cast tc Float64)),
                 prob_helper attempts (num_sampled s)
                   (base_prob (log_range s)
                      (astype cast (nd_array sampled (ctx tc) Int64) Float64))),
                s\<lparr>csampler_of := cs'\<rparr>))"
  using assms by (simp add: call_counts_def Let_def)



section \<open>The expected count\<close>

text \<open>
  Claim C1. Every entry \<open>p\<close> of the probability array is mapped by \<^verbatim>\<open>_prob_helper\<close> to
  \<open>p * num_sampled\<close> when the number of tries equals \<open>num_sampled\<close>, and to
  \<open>-(expm1(attempts * log1p(-p)))\<close> otherwise. For a probability \<open>p \<le> 1\<close> and a
  non-negative number of tries (positive if \<open>p = 1\<close>) the second value is
  \<open>1 - (1 - p) ^ attempts\<close>.
\<close>

theorem prob_helper_formula:
  "vals (prob_helper attempts n prob) =
     map (\<lambda>p. if attempts = n then fmul p (Fin (of_int n))
              else fneg (fexpm1 (fmul (Fin (of_int attempts)) (flog1p (fneg p))))) (vals prob)
   \<and> (\<forall>i x. i < length (vals prob) \<and> vals prob ! i = Fin x \<and> x \<le> 1 \<and> 0 \<le> attempts
          \<and> (x < 1 \<or> 0 < attempts)
        \<longrightarrow> vals (prob_helper attempts n prob) ! i =
              (if attempts = n then Fin (x * of_int n) else Fin (1 - (1 - x) ^ nat attempts)))"
  using general_elem by (simp add: vals_prob_helper)

theorem prob_helper_formula_witness:
  "vals (prob_helper 3 2 \<lparr>shape = [1], ctx = Cpu 0, dtype = Float64, vals = [Fin (1 / 2)]\<rparr>) ! 0
     = Fin (7 / 8)"
  using conjunct2 [OF prob_helper_formula [of 3 2
      "\<lparr>shape = [1], ctx = Cpu 0, dtype = Float64, vals = [Fin (1 / 2)]\<rparr>"],
      rule_format, of 0 "1 / 2"]
  by (simp add: power3_eq_cube)

text \<open>
  Claim C2. For a class index \<open>c\<close> in \<open>[0, range_max)\<close> that the conversion to float64
  represents exactly, the base probability is \<open>ln((c+2)/(c+1)) / ln(range_max+1)\<close>, and the
  probability array is a float64 array whatever element type the sampler was configured
  with.
\<close>

theorem base_prob_formula:
  assumes "LogUniformSampler_init range_max n dt seed = Inr s"
    and "i < length (vals a)"
    and "vals a ! i = Fin (of_int c)"
    and "0 \<le> c" and "c < range_max"
    and "cast Float64 (Fin (of_int c)) = Fin (of_int c)"
  shows "dtype (base_prob (log_range s) (astype cast a Float64)) = Float64 \<and>
         vals (base_prob (log_range s) (astype cast a Float64)) ! i =
           Fin (ln ((of_int c + 2) / (of_int c + 1)) / ln (of_int range_max + 1))"
proof -
  have lr: "log_range s = ln (of_int range_max + 1)"
    using assms(1) by (simp add: init_Inr)
  have "1 < (of_int range_max + 1 :: real)"
    using assms(4,5) by simp
  then have "ln (of_int range_max + 1 :: real) \<noteq> 0"
    by simp
  moreover have "- 1 < (of_int c :: real)"
    using assms(4) by simp
  ultimately have
    "fdiv (flog (fdiv (fadd (Fin (of_int c)) (Fin 2)) (fadd (Fin (of_int c)) (Fin 1))))
       (Fin (ln (of_int range_max + 1)))
     = Fin (ln ((of_int c + 2) / (of_int c + 1)) / ln (of_int range_max + 1))"
    by (rule prob_elem_Fin [rotated])
  then show ?thesis
    using assms(2,3,6) by (simp add: vals_base_prob base_prob_attrs astype_simps lr)
qed

theorem base_prob_formula_witness:
  "dtype (base_prob (ln 4) (astype (\<lambda>d v. v)
       \<lparr>shape = [2], ctx = Cpu 0, dtype = Int32, vals = [Fin 0, Fin 2]\<rparr> Float64)) = Float64 \<and>
   vals (base_prob (ln 4) (astype (\<lambda>d v. v)
       \<lparr>shape = [2], ctx = Cpu 0, dtype = Int32, vals = [Fin 0, Fin 2]\<rparr> Float64)) ! 1
     = Fin (ln (4 / 3) / ln 4)"
  using base_prob_formula [of 3 2 "Some Float16" 7
      "\<lparr>num_sampled = 2, log_range = ln 4, csampler_of = csampler_init 3 7,
        out_dtype = Float16\<rparr>"
      1 "\<lparr>shape = [2], ctx = Cpu 0, dtype = Int32, vals = [Fin 0, Fin 2]\<rparr>" 2 "\<lambda>d v. v"]
  by (simp add: LogUniformSampler_init_def)

section \<open>The call\<close>

text \<open>
  Claim C3. A call draws from the unique sampler once: the generator state after the call
  is the state after that one invocation, and the number of tries it returned is the one
  used for the expected counts of the true classes and of the sampled classes. The
  expected count of the true classes has the shape of \<open>true_classes\<close>.
\<close>

theorem call_single_sample:
  assumes "sample_unique U (csampler_of s) (num_sampled s) = Some (Inr ((sampled, attempts), cs'))"
  shows "\<exists>sampled_classes count_true count_sampled.
           call U cast s tc =
             Some (Inr ((sampled_classes, count_true, count_sampled), s\<lparr>csampler_of := cs'\<rparr>)) \<and>
           sampled_classes = astype cast (nd_array sampled (ctx tc) Int64) (out_dtype s) \<and>
           count_true = astype cast (prob_helper attempts (num_sampled s)
               (base_prob (log_range s) (astype cast tc Float64))) (out_dtype s) \<and>
           count_sampled = astype cast (prob_helper attempts (num_sampled s)
               (base_prob (log_range s)
                  (astype cast (nd_array sampled (ctx tc) Int64) Float64))) (out_dtype s) \<and>
           shape count_true = shape tc \<and>
           length (vals count_true) = length (vals tc) \<and>
           length (vals count_sampled) = length sampled"
  using call_counts_Inr [OF assms, of cast tc]
  by (simp add: call_def astype_simps prob_helper_attrs base_prob_attrs vals_prob_helper
      vals_base_prob nd_array_def)

theorem call_single_sample_witness:
  "\<exists>sampled_classes count_true count_sampled.
     call (\<lambda>_ i. if i < 2 then 0 else 1) (\<lambda>d v. v)
       \<lparr>num_sampled = 2, log_range = ln 3, csampler_of = csampler_init 2 0, out_dtype = Float32\<rparr>
       \<lparr>shape = [3], ctx = Cpu 0, dtype = Int64, vals = [Fin 0, Fin 0, Fin 1]\<rparr>
     = Some (Inr ((sampled_classes, count_true, count_sampled),
          \<lparr>num_sampled = 2, log_range = ln 3,
           csampler_of = \<lparr>cs_range_max = 2, cs_seed = 0, cs_pos = 3\<rparr>, out_dtype = Float32\<rparr>))
     \<and> vals sampled_classes = [Fin 0, Fin 1]
     \<and> shape count_true = [3] \<and> length (vals count_sampled) = 2"
  using call_single_sample [of "\<lambda>_ i. if i < 2 then 0 else 1"
      "\<lparr>num_sampled = 2, log_range = ln 3, csampler_of = csampler_init 2 0, out_dtype = Float32\<rparr>"
      "[0, 1]" 3 "\<lparr>cs_range_max = 2, cs_seed = 0, cs_pos = 3\<rparr>" "\<lambda>d v. v"
      "\<lparr>shape = [3], ctx = Cpu 0, dtype = Int64, vals = [Fin 0, Fin 0, Fin 1]\<rparr>"]
    sample_unique_reject [of 0]
  by (simp add: astype_simps nd_array_def)

text \<open>
  A call whose only true class is \<open>1\<close>, on a sampler over the single class \<open>0\<close>: the entry
  lies outside \<open>[0, range_max)\<close>.
\<close>

lemma call_example:
  "call (\<lambda>_ _. 0) (\<lambda>d v. v)
     \<lparr>num_sampled = 1, log_range = ln 2, csampler_of = csampler_init 1 0, out_dtype = Float32\<rparr>
     \<lparr>shape = [1], ctx = Cpu 0, dtype = Int64, vals = [Fin 1]\<rparr>
   = Some (Inr ((\<lparr>shape = [1], ctx = Cpu 0, dtype = Float32, vals = [Fin 0]\<rparr>,
                 \<lparr>shape = [1], ctx = Cpu 0, dtype = Float32, vals = [Fin (ln (3 / 2) / ln 2)]\<rparr>,
                 \<lparr>shape = [1], ctx = Cpu 0, dtype = Float32, vals = [Fin 1]\<rparr>),
                \<lparr>num_sampled = 1, log_range = ln 2,
                 csampler_of = \<lparr>cs_range_max = 1, cs_seed = 0, cs_pos = 1\<rparr>,
                 out_dtype = Float32\<rparr>))"
proof -
  have "call_counts (\<lambda>_ _. 0) (\<lambda>d v. v)
     \<lparr>num_sampled = 1, log_range = ln 2, csampler_of = csampler_init 1 0, out_dtype = Float32\<rparr>
     \<lparr>shape = [1], ctx = Cpu 0, dtype = Int64, vals = [Fin 1]\<rparr>
    = Some (Inr ((\<lparr>shape = [1], ctx = Cpu 0, dtype = Int64, vals = [Fin 0]\<rparr>, 1,
                 \<lparr>shape = [1], ctx = Cpu 0, dtype = Float64, vals = [Fin (ln (3 / 2) / ln 2)]\<rparr>,
                 \<lparr>shape = [1], ctx = Cpu 0, dtype = Float64, vals = [Fin 1]\<rparr>),
                \<lparr>num_sampled = 1, log_range = ln 2,
                 csampler_of = \<lparr>cs_range_max = 1, cs_seed = 0, cs_pos = 1\<rparr>,
                 out_dtype = Float32\<rparr>))"
    using sample_unique_const0 [of 0]
    by (simp add: call_counts_def Let_def nd_array_def astype_def prob_helper_def
        prob_helper_fast_def base_prob_def nd_div_scalar_def nd_log_def nd_div_def
        nd_add_scalar_def nd_mul_scalar_def nd_map_def)
  then show ?thesis
    by (simp add: call_def astype_def)
qed

text \<open>
  The call above raises nothing: it returns the sampled class and both expected counts,
  the count of the out-of-range entry being \<open>ln(3/2) / ln 2\<close>.
\<close>

theorem call_out_of_range_counterexample:
  "LogUniformSampler_init 1 1 None 0 =
     Inr \<lparr>num_sampled = 1, log_range = ln 2, csampler_of = csampler_init 1 0,
          out_dtype = Float32\<rparr> \<and>
   call (\<lambda>_ _. 0) (\<lambda>d v. v)
     \<lparr>num_sampled = 1, log_range = ln 2, csampler_of = csampler_init 1 0, out_dtype = Float32\<rparr>
     \<lparr>shape = [1], ctx = Cpu 0, dtype = Int64, vals = [Fin 1]\<rparr>
   = Some (Inr ((\<lparr>shape = [1], ctx = Cpu 0, dtype = Float32, vals = [Fin 0]\<rparr>,
                 \<lparr>shape = [1], ctx = Cpu 0, dtype = Float32, vals = [Fin (ln (3 / 2) / ln 2)]\<rparr>,
                 \<lparr>shape = [1], ctx = Cpu 0, dtype = Float32, vals = [Fin 1]\<rparr>),
                \<lparr>num_sampled = 1, log_range = ln 2,
                 csampler_of = \<lparr>cs_range_max = 1, cs_seed = 0, cs_pos = 1\<rparr>,
                 out_dtype = Float32\<rparr>))"
  using call_example by (simp add: LogUniformSampler_init_def)


subsection \<open>Failure\<close>

lemma sample_unique_invalid:
  "cs_range_max cs < k \<or> cs_range_max cs \<le> 0 \<or> k \<le> 0
     \<Longrightarrow> sample_unique U cs k = Some (Inl InvalidArgument)"
  by (simp add: sample_unique_def)

lemma call_Inl:
  "call U cast s tc = Some (Inl e) \<longleftrightarrow>
     sample_unique U (csampler_of s) (num_sampled s) = Some (Inl e)"
  by (auto simp add: call_def call_counts_def Let_def split: option.splits sum.splits)

text \<open>
  Claim C5, as the code has it. The constructor raises ValueError when \<open>range_max + 1 \<le> 0\<close>.
  A call on a constructed sampler fails with InvalidArgument whenever
  \<open>num_sampled > range_max\<close>, or \<open>range_max\<close> or \<open>num_sampled\<close> is not positive; the exception
  is the whole outcome of the call. Whether a call fails does not depend on
  \<open>true_classes\<close>: its entries are not checked against \<open>[0, range_max)\<close>.
\<close>

theorem call_failure:
  "(range_max + 1 \<le> 0 \<longrightarrow> LogUniformSampler_init range_max n dt seed = Inl ValueError) \<and>
   (LogUniformSampler_init range_max n dt seed = Inr s \<longrightarrow>
      cs_range_max (csampler_of s) = range_max \<and> num_sampled s = n) \<and>
   (cs_range_max (csampler_of s) < num_sampled s \<or> cs_range_max (csampler_of s) \<le> 0
      \<or> num_sampled s \<le> 0 \<longrightarrow>
      call U cast s tc = Some (Inl InvalidArgument)) \<and>
   (call U cast s tc = Some (Inl e) \<longrightarrow> (\<forall>r. call U cast s tc \<noteq> Some (Inr r))) \<and>
   (call U cast s tc = Some (Inl e) \<longrightarrow> call U cast s tc' = Some (Inl e))"
proof (intro conjI impI)
  assume "range_max + 1 \<le> 0"
  then show "LogUniformSampler_init range_max n dt seed = Inl ValueError"
    by (simp add: LogUniformSampler_init_def)
next
  assume "LogUniformSampler_init range_max n dt seed = Inr s"
  then show "cs_range_max (csampler_of s) = range_max" "num_sampled s = n"
    by (simp_all add: init_Inr csampler_init_def)
next
  assume "cs_range_max (csampler_of s) < num_sampled s \<or> cs_range_max (csampler_of s) \<le> 0
      \<or> num_sampled s \<le> 0"
  then have "sample_unique U (csampler_of s) (num_sampled s) = Some (Inl InvalidArgument)"
    by (rule sample_unique_invalid)
  then show "call U cast s tc = Some (Inl InvalidArgument)"
    by (simp add: call_Inl)
next
  assume "call U cast s tc = Some (Inl e)"
  then show "\<forall>r. call U cast s tc \<noteq> Some (Inr r)"
    by simp
next
  assume "call U cast s tc = Some (Inl e)"
  then show "call U cast s tc' = Some (Inl e)"
    by (simp add: call_Inl)
qed

theorem call_failure_witness:
  "LogUniformSampler_init (- 1) 1 None 0 = Inl ValueError \<and>
   call (\<lambda>_ _. 0) (\<lambda>d v. v)
     \<lparr>num_sampled = 2, log_range = ln 2, csampler_of = csampler_init 1 0, out_dtype = Float32\<rparr>
     \<lparr>shape = [1], ctx = Cpu 0, dtype = Int64, vals = [Fin 0]\<rparr>
   = Some (Inl InvalidArgument) \<and>
   call (\<lambda>_ _. 0) (\<lambda>d v. v)
     \<lparr>num_sampled = 0, log_range = ln 6, csampler_of = csampler_init 5 0, out_dtype = Float32\<rparr>
     \<lparr>shape = [1], ctx = Cpu 0, dtype = Int64, vals = [Fin 0]\<rparr>
   = Some (Inl InvalidArgument)"
  using call_failure [of "- 1" 1 None 0
      "\<lparr>num_sampled = 2, log_range = ln 2, csampler_of = csampler_init 1 0,
        out_dtype = Float32\<rparr>"
      "\<lambda>_ _. 0" "\<lambda>d v. v"
      "\<lparr>shape = [1], ctx = Cpu 0, dtype = Int64, vals = [Fin 0]\<rparr>"]
    call_failure [of "- 1" 1 None 0
      "\<lparr>num_sampled = 0, log_range = ln 6, csampler_of = csampler_init 5 0,
        out_dtype = Float32\<rparr>"
      "\<lambda>_ _. 0" "\<lambda>d v. v"
      "\<lparr>shape = [1], ctx = Cpu 0, dtype = Int64, vals = [Fin 0]\<rparr>"]
  by (simp add: csampler_init_def)

subsection \<open>Element types of the outputs\<close>

text \<open>
  With no element type configured, the sampled classes come back as a float32 array, not
  as the int64 array they were built as.
\<close>

theorem call_sampled_dtype_counterexample:
  "LogUniformSampler_init 1 1 None 0 =
     Inr \<lparr>num_sampled = 1, log_range = ln 2, csampler_of = csampler_init 1 0,
          out_dtype = Float32\<rparr> \<and>
   map_option (map_sum id (\<lambda>((sampled_classes, count_true, count_sampled), s').
        (dtype sampled_classes, vals sampled_classes)))
     (call (\<lambda>_ _. 0) (\<lambda>d v. v)
        \<lparr>num_sampled = 1, log_range = ln 2, csampler_of = csampler_init 1 0,
         out_dtype = Float32\<rparr>
        \<lparr>shape = [1], ctx = Cpu 0, dtype = Int64, vals = [Fin 0]\<rparr>)
   = Some (Inr (Float32, [Fin 0])) \<and> Float32 \<noteq> Int64"
  using sample_unique_const0 [of 0]
  by (simp add: call_def call_counts_def Let_def astype_simps nd_array_def
      LogUniformSampler_init_def)

text \<open>
  Claim C6, as the code has it. The configured element type is float32 when none is given.
  All three outputs of a call, the sampled classes included, are converted to the
  configured element type; before the conversion the sampled classes are int64 and the
  two expected counts float64.
\<close>

theorem call_output_dtype:
  "(LogUniformSampler_init range_max n dt seed = Inr s \<longrightarrow>
      out_dtype s = (case dt of None \<Rightarrow> Float32 | Some d \<Rightarrow> d)) \<and>
   (call U cast s tc = Some (Inr ((sampled_classes, count_true, count_sampled), s')) \<longrightarrow>
      dtype sampled_classes = out_dtype s \<and> dtype count_true = out_dtype s \<and>
      dtype count_sampled = out_dtype s \<and> out_dtype s' = out_dtype s \<and>
      (\<exists>sc64 num_tries ct64 cs64.
         call_counts U cast s tc = Some (Inr ((sc64, num_tries, ct64, cs64), s')) \<and>
         dtype sc64 = Int64 \<and> dtype ct64 = Float64 \<and> dtype cs64 = Float64 \<and>
         sampled_classes = astype cast sc64 (out_dtype s) \<and>
         count_true = astype cast ct64 (out_dtype s) \<and>
         count_sampled = astype cast cs64 (out_dtype s)))"
  (is "?init \<and> (?call \<longrightarrow> ?out)")
proof (rule conjI)
  show ?init
    by (auto simp add: init_Inr)
next
  show "?call \<longrightarrow> ?out"
  proof (rule impI)
    assume c: ?call
    then obtain sampled attempts cs' where
      su: "sample_unique U (csampler_of s) (num_sampled s)
             = Some (Inr ((sampled, attempts), cs'))"
      by (auto simp add: call_def call_counts_def split: option.splits sum.splits)
    note cc = call_counts_Inr [OF su, of cast tc]
    from c cc have eqs:
      "sampled_classes = astype cast (nd_array sampled (ctx tc) Int64) (out_dtype s)"
      "count_true = astype cast (prob_helper attempts (num_sampled s)
                 (base_prob (log_range s) (astype cast tc Float64))) (out_dtype s)"
      "count_sampled = astype cast (prob_helper attempts (num_sampled s)
                 (base_prob (log_range s)
                    (astype cast (nd_array sampled (ctx tc) Int64) Float64))) (out_dtype s)"
      "s' = s\<lparr>csampler_of := cs'\<rparr>"
      by (simp_all add: call_def)
    show ?out
      unfolding eqs cc
      by (simp add: astype_simps prob_helper_attrs base_prob_attrs nd_array_def)
  qed
qed


theorem call_output_dtype_witness:
  "LogUniformSampler_init 1 1 None 0 =
     Inr \<lparr>num_sampled = 1, log_range = ln 2, csampler_of = csampler_init 1 0,
          out_dtype = Float32\<rparr> \<and>
   (\<exists>sc64 num_tries ct64 cs64.
      call_counts (\<lambda>_ _. 0) (\<lambda>d v. v)
        \<lparr>num_sampled = 1, log_range = ln 2, csampler_of = csampler_init 1 0,
         out_dtype = Float32\<rparr>
        \<lparr>shape = [1], ctx = Cpu 0, dtype = Int64, vals = [Fin 1]\<rparr>
      = Some (Inr ((sc64, num_tries, ct64, cs64),
           \<lparr>num_sampled = 1, log_range = ln 2,
            csampler_of = \<lparr>cs_range_max = 1, cs_seed = 0, cs_pos = 1\<rparr>,
            out_dtype = Float32\<rparr>)) \<and>
      dtype sc64 = Int64 \<and> dtype ct64 = Float64 \<and> dtype cs64 = Float64 \<and>
      \<lparr>shape = [1], ctx = Cpu 0, dtype = Float32, vals = [Fin 0]\<rparr>
        = astype (\<lambda>d v. v) sc64 Float32 \<and>
      \<lparr>shape = [1], ctx = Cpu 0, dtype = Float32, vals = [Fin (ln (3 / 2) / ln 2)]\<rparr>
        = astype (\<lambda>d v. v) ct64 Float32 \<and>
      \<lparr>shape = [1], ctx = Cpu 0, dtype = Float32, vals = [Fin 1]\<rparr>
        = astype (\<lambda>d v. v) cs64 Float32)"
  using call_output_dtype [of 1 1 None 0
      "\<lparr>num_sampled = 1, log_range = ln 2, csampler_of = csampler_init 1 0,
        out_dtype = Float32\<rparr>"
      "\<lambda>_ _. 0" "\<lambda>d v. v"
      "\<lparr>shape = [1], ctx = Cpu 0, dtype = Int64, vals = [Fin 1]\<rparr>"
      "\<lparr>shape = [1], ctx = Cpu 0, dtype = Float32, vals = [Fin 0]\<rparr>"
      "\<lparr>shape = [1], ctx = Cpu 0, dtype = Float32, vals = [Fin (ln (3 / 2) / ln 2)]\<rparr>"
      "\<lparr>shape = [1], ctx = Cpu 0, dtype = Float32, vals = [Fin 1]\<rparr>"
      "\<lparr>num_sampled = 1, log_range = ln 2,
        csampler_of = \<lparr>cs_range_max = 1, cs_seed = 0, cs_pos = 1\<rparr>,
        out_dtype = Float32\<rparr>"]
    call_example
  by (simp add: LogUniformSampler_init_def)

subsection \<open>Determinism\<close>




section \<open>Bounds and monotonicity\<close>

lemma base_prob_nth:
  assumes "i < length (vals a)" "vals a ! i = Fin c" "- 1 < c" "lr \<noteq> 0"
  shows "vals (base_prob lr a) ! i = Fin (ln ((c + 2) / (c + 1)) / lr)"
  using assms by (simp add: vals_base_prob prob_elem_Fin)

lemma prob_helper_nth:
  assumes "i < length (vals prob)" "vals prob ! i = Fin p"
  shows "vals (prob_helper t n prob) ! i =
           (if t = n then Fin (p * of_int n)
            else fneg (fexpm1 (fmul (Fin (of_int t)) (flog1p (fneg (Fin p))))))"
  using assms by (simp add: vals_prob_helper)

lemma length_vals_base_prob: "length (vals (base_prob lr a)) = length (vals a)"
  by (simp add: vals_base_prob)

lemma ratio_gt_one:
  fixes c :: real
  assumes "0 \<le> c"
  shows "1 < (c + 2) / (c + 1)"
  using assms by (simp add: field_simps)

lemma ratio_le_two:
  fixes c :: real
  assumes "0 \<le> c"
  shows "(c + 2) / (c + 1) \<le> 2"
  using assms by (simp add: field_simps)

lemma ratio_antimono:
  fixes c1 c2 :: real
  assumes "0 \<le> c1" "c1 < c2"
  shows "(c2 + 2) / (c2 + 1) < (c1 + 2) / (c1 + 1)"
  using assms by (simp add: field_simps)

lemma class_prob_bounds:
  fixes c r :: real
  assumes "0 \<le> c" "1 \<le> r"
  shows "0 < ln ((c + 2) / (c + 1)) / ln (r + 1)"
    and "ln ((c + 2) / (c + 1)) / ln (r + 1) \<le> 1"
proof -
  have lr: "0 < ln (r + 1)" using assms by simp
  have "0 < ln ((c + 2) / (c + 1))"
    using ratio_gt_one [OF assms(1)] by simp
  then show "0 < ln ((c + 2) / (c + 1)) / ln (r + 1)"
    using lr by simp
  have "(c + 2) / (c + 1) \<le> r + 1"
    using ratio_le_two [OF assms(1)] assms(2) by simp
  moreover have "0 < (c + 2) / (c + 1)"
    using ratio_gt_one [OF assms(1)] by simp
  ultimately have "ln ((c + 2) / (c + 1)) \<le> ln (r + 1)"
    by simp
  then show "ln ((c + 2) / (c + 1)) / ln (r + 1) \<le> 1"
    using lr by simp
qed

lemma class_prob_lt_one:
  fixes c r :: real
  assumes "0 \<le> c" "2 \<le> r"
  shows "ln ((c + 2) / (c + 1)) / ln (r + 1) < 1"
proof -
  have lr: "0 < ln (r + 1)" using assms by simp
  have "(c + 2) / (c + 1) < r + 1"
    using ratio_le_two [OF assms(1)] assms(2) by simp
  moreover have "0 < (c + 2) / (c + 1)"
    using ratio_gt_one [OF assms(1)] by simp
  ultimately have "ln ((c + 2) / (c + 1)) < ln (r + 1)"
    by simp
  then show ?thesis
    using lr by simp
qed

lemma class_prob_antimono:
  fixes c1 c2 r :: real
  assumes "0 \<le> c1" "c1 < c2" "1 \<le> r"
  shows "ln ((c2 + 2) / (c2 + 1)) / ln (r + 1) < ln ((c1 + 2) / (c1 + 1)) / ln (r + 1)"
proof -
  have lr: "0 < ln (r + 1)" using assms by simp
  have "0 < (c2 + 2) / (c2 + 1)"
    using ratio_gt_one [of c2] assms by simp
  then have "ln ((c2 + 2) / (c2 + 1)) < ln ((c1 + 2) / (c1 + 1))"
    using ratio_antimono [OF assms(1,2)] by simp
  then show ?thesis
    using lr by (simp add: divide_strict_right_mono)
qed



lemma general_elem_exp:
  assumes "p < 1"
  shows "fneg (fexpm1 (fmul (Fin (of_int t)) (flog1p (fneg (Fin p)))))
           = Fin (1 - exp (of_int t * ln (1 - p)))"
  using assms by simp

lemma general_exp_mono:
  fixes p :: real
  assumes "0 < p" "p < 1" "t1 \<le> t2"
  shows "1 - exp (of_int t1 * ln (1 - p)) \<le> 1 - exp (of_int t2 * ln (1 - p))"
proof -
  have "ln (1 - p) < 0" using assms by simp
  then have "of_int t2 * ln (1 - p) \<le> of_int t1 * ln (1 - p)"
    using assms(3) by (simp add: mult_right_mono_neg)
  then show ?thesis by simp
qed

lemma ln_4: "ln (4 :: real) = 2 * ln 2"
  using ln_mult [of "2 :: real" 2] by simp

lemma base_prob_example:
  "vals (base_prob (ln 4) \<lparr>shape = [1], ctx = Cpu 0, dtype = Float64, vals = [Fin 0]\<rparr>)
     = [Fin (1 / 2)]"
  by (simp add: vals_base_prob ln_4)

text \<open>
  Claim C10. For a probability strictly between 0 and 1 the value of the general branch,
  taken when the number of tries differs from \<open>num_sampled\<close>, does not decrease when the
  number of tries grows and never exceeds 1. The value of the fast path can exceed 1: with
  \<open>range_max = 3\<close> and \<open>num_sampled = 3\<close> the expected count of class 0 after 3 tries is
  \<open>3/2\<close>.
\<close>

theorem general_branch_monotone:
  assumes "i < length (vals prob)" and "vals prob ! i = Fin p"
    and "0 < p" and "p < 1"
    and "t1 \<le> t2" and "t1 \<noteq> n" and "t2 \<noteq> n"
  shows "(\<exists>e1 e2. vals (prob_helper t1 n prob) ! i = Fin e1 \<and>
                  vals (prob_helper t2 n prob) ! i = Fin e2 \<and> e1 \<le> e2 \<and> e2 \<le> 1) \<and>
         LogUniformSampler_init 3 3 None 0 =
           Inr \<lparr>num_sampled = 3, log_range = ln 4, csampler_of = csampler_init 3 0,
                out_dtype = Float32\<rparr> \<and>
         vals (prob_helper 3 3 (base_prob (ln 4)
                 \<lparr>shape = [1], ctx = Cpu 0, dtype = Float64, vals = [Fin 0]\<rparr>)) = [Fin (3 / 2)]"
proof -
  have 1: "vals (prob_helper t1 n prob) ! i = Fin (1 - exp (of_int t1 * ln (1 - p)))"
    using assms by (simp add: prob_helper_nth)
  have 2: "vals (prob_helper t2 n prob) ! i = Fin (1 - exp (of_int t2 * ln (1 - p)))"
    using assms by (simp add: prob_helper_nth)
  have 3: "1 - exp (of_int t1 * ln (1 - p)) \<le> 1 - exp (of_int t2 * ln (1 - p))"
    using assms by (intro general_exp_mono)
  have 4: "1 - exp (of_int t2 * ln (1 - p)) \<le> 1"
    by simp
  have 5: "vals (prob_helper 3 3 (base_prob (ln 4)
                 \<lparr>shape = [1], ctx = Cpu 0, dtype = Float64, vals = [Fin 0]\<rparr>)) = [Fin (3 / 2)]"
    using base_prob_example by (simp add: vals_prob_helper)
  show ?thesis
    using 1 2 3 4 5 by (simp add: LogUniformSampler_init_def)
qed

theorem general_branch_monotone_witness:
  "\<exists>e1 e2. vals (prob_helper 4 3 \<lparr>shape = [1], ctx = Cpu 0, dtype = Float64,
                vals = [Fin (1 / 2)]\<rparr>) ! 0 = Fin e1 \<and>
           vals (prob_helper 5 3 \<lparr>shape = [1], ctx = Cpu 0, dtype = Float64,
                vals = [Fin (1 / 2)]\<rparr>) ! 0 = Fin e2 \<and> e1 \<le> e2 \<and> e2 \<le> 1"
  using general_branch_monotone [of 0
      "\<lparr>shape = [1], ctx = Cpu 0, dtype = Float64, vals = [Fin (1 / 2)]\<rparr>" "1 / 2" 4 5 3]
  by simp

lemma general_exp_mono_prob:
  fixes p1 p2 :: real
  assumes "p2 \<le> p1" "p1 < 1" "0 \<le> t"
  shows "1 - exp (of_int t * ln (1 - p2)) \<le> 1 - exp (of_int t * ln (1 - p1))"
proof -
  have "ln (1 - p1) \<le> ln (1 - p2)" using assms by simp
  then have "of_int t * ln (1 - p1) \<le> of_int t * ln (1 - p2)"
    using assms(3) by (simp add: mult_left_mono)
  then show ?thesis by simp
qed

lemma general_exp_strict_mono_prob:
  fixes p1 p2 :: real
  assumes "p2 < p1" "p1 < 1" "0 < t"
  shows "1 - exp (of_int t * ln (1 - p2)) < 1 - exp (of_int t * ln (1 - p1))"
proof -
  have "ln (1 - p1) < ln (1 - p2)" using assms by simp
  then have "of_int t * ln (1 - p1) < of_int t * ln (1 - p2)"
    using assms(3) by simp
  then show ?thesis by simp
qed

text \<open>
  Claim C8. For class indices \<open>c1 < c2\<close> in \<open>[0, range_max)\<close> the base probability of \<open>c1\<close>
  is at least (in fact greater than) that of \<open>c2\<close>; for one number of tries the expected
  count of \<open>c1\<close> is at least that of \<open>c2\<close>, and greater once there has been a try.
\<close>

theorem expected_count_antimono:
  assumes "LogUniformSampler_init range_max n dt seed = Inr s"
    and "i < length (vals a)" and "j < length (vals a)"
    and "vals a ! i = Fin (of_int c1)" and "vals a ! j = Fin (of_int c2)"
    and "0 \<le> c1" and "c1 < c2" and "c2 < range_max"
    and "0 \<le> attempts"
  shows "\<exists>p1 p2 e1 e2.
           vals (base_prob (log_range s) a) ! i = Fin p1 \<and>
           vals (base_prob (log_range s) a) ! j = Fin p2 \<and>
           p2 \<le> p1 \<and> p2 < p1 \<and>
           vals (prob_helper attempts n (base_prob (log_range s) a)) ! i = Fin e1 \<and>
           vals (prob_helper attempts n (base_prob (log_range s) a)) ! j = Fin e2 \<and>
           e2 \<le> e1 \<and> (1 \<le> attempts \<longrightarrow> e2 < e1)"
proof -
  define r :: real where "r = of_int range_max"
  define x1 :: real where "x1 = of_int c1"
  define x2 :: real where "x2 = of_int c2"
  define p1 where "p1 = ln ((x1 + 2) / (x1 + 1)) / ln (r + 1)"
  define p2 where "p2 = ln ((x2 + 2) / (x2 + 1)) / ln (r + 1)"
  have lr: "log_range s = ln (r + 1)"
    using assms(1) by (simp add: init_Inr r_def)
  have x: "0 \<le> x1" "x1 < x2" "0 \<le> x2" "2 \<le> r"
    using assms(6,7,8) by (simp_all add: x1_def x2_def r_def)
  have lrpos: "ln (r + 1) \<noteq> 0"
    using x(4) by simp
  have b1: "vals (base_prob (log_range s) a) ! i = Fin p1"
    unfolding lr p1_def using assms(2,4) x(1) lrpos
    by (intro base_prob_nth) (simp_all add: x1_def)
  have b2: "vals (base_prob (log_range s) a) ! j = Fin p2"
    unfolding lr p2_def using assms(3,5) x(3) lrpos
    by (intro base_prob_nth) (simp_all add: x2_def)
  have lt: "p2 < p1"
    unfolding p1_def p2_def using x by (intro class_prob_antimono) simp_all
  have p1: "p1 < 1"
    unfolding p1_def using x by (intro class_prob_lt_one) simp_all
  have p2: "p2 < 1"
    using lt p1 by simp
  define e :: "real \<Rightarrow> real" where "e = (\<lambda>p. if attempts = n then p * of_int n
                          else 1 - exp (of_int attempts * ln (1 - p)))"
  have h1: "vals (prob_helper attempts n (base_prob (log_range s) a)) ! i = Fin (e p1)"
    using assms(2) b1 p1 by (simp add: prob_helper_nth length_vals_base_prob e_def)
  have h2: "vals (prob_helper attempts n (base_prob (log_range s) a)) ! j = Fin (e p2)"
    using assms(3) b2 p2 by (simp add: prob_helper_nth length_vals_base_prob e_def)
  have le: "e p2 \<le> e p1"
  proof (cases "attempts = n")
    case True
    then have "0 \<le> (of_int n :: real)" using assms(9) by simp
    then show ?thesis
      using True lt by (simp add: e_def mult_right_mono)
  next
    case False
    then show ?thesis
      using general_exp_mono_prob [of p2 p1 attempts] lt p1 assms(9) by (simp add: e_def)
  qed
  have strict: "e p2 < e p1" if "1 \<le> attempts"
  proof (cases "attempts = n")
    case True
    then have "0 < (of_int n :: real)" using that by simp
    then show ?thesis
      using True lt by (simp add: e_def)
  next
    case False
    then show ?thesis
      using general_exp_strict_mono_prob [of p2 p1 attempts] lt p1 that by (simp add: e_def)
  qed
  show ?thesis
    using b1 b2 lt h1 h2 le strict by auto
qed


theorem expected_count_antimono_witness:
  "\<exists>p1 p2 e1 e2.
     vals (base_prob (ln 11)
        \<lparr>shape = [3], ctx = Cpu 0, dtype = Float64, vals = [Fin 0, Fin 0, Fin 5]\<rparr>) ! 0 = Fin p1 \<and>
     vals (base_prob (ln 11)
        \<lparr>shape = [3], ctx = Cpu 0, dtype = Float64, vals = [Fin 0, Fin 0, Fin 5]\<rparr>) ! 2 = Fin p2 \<and>
     p2 < p1 \<and>
     vals (prob_helper 3 3 (base_prob (ln 11)
        \<lparr>shape = [3], ctx = Cpu 0, dtype = Float64, vals = [Fin 0, Fin 0, Fin 5]\<rparr>)) ! 0 = Fin e1 \<and>
     vals (prob_helper 3 3 (base_prob (ln 11)
        \<lparr>shape = [3], ctx = Cpu 0, dtype = Float64, vals = [Fin 0, Fin 0, Fin 5]\<rparr>)) ! 2 = Fin e2 \<and>
     e2 < e1"
  using expected_count_antimono [of 10 3 None 1
      "\<lparr>num_sampled = 3, log_range = ln 11, csampler_of = csampler_init 10 1,
        out_dtype = Float32\<rparr>"
      0 "\<lparr>shape = [3], ctx = Cpu 0, dtype = Float64, vals = [Fin 0, Fin 0, Fin 5]\<rparr>"
      2 0 5 3]
  by (simp add: LogUniformSampler_init_def) blast

lemma count_elem_bounded:
  assumes "0 \<le> p" "p \<le> 1" "1 \<le> n" "n \<le> t"
  shows "finite_between 0 (of_int n)
           (if t = n then fmul (Fin p) (Fin (of_int n))
            else fneg (fexpm1 (fmul (Fin (of_int t)) (flog1p (fneg (Fin p))))))"
proof (cases "t = n")
  case True
  have "p * of_int n \<le> 1 * of_int n"
    using assms(2,3) by (intro mult_right_mono) simp_all
  then show ?thesis
    using True assms(1,3) by simp
next
  case False
  have t: "0 \<le> t" "0 < t" using assms(3,4) by simp_all
  define y where "y = (1 - p) ^ nat t"
  have y: "0 \<le> y" "y \<le> 1"
    using assms(1,2) by (simp_all add: y_def power_le_one)
  have n: "(1 :: real) \<le> of_int n"
    using assms(3) by simp
  have "fneg (fexpm1 (fmul (Fin (of_int t)) (flog1p (fneg (Fin p))))) = Fin (1 - y)"
    unfolding y_def using assms(2) t by (intro general_elem) simp_all
  moreover have "0 \<le> 1 - y" "1 - y \<le> of_int n"
    using y n by simp_all
  ultimately show ?thesis
    using False by simp
qed

lemma class_count_bounded:
  assumes "0 \<le> c" "c < range_max" "1 \<le> n" "n \<le> t"
  shows "finite_between 0 (of_int n)
           ((\<lambda>p. if t = n then fmul p (Fin (of_int n))
                 else fneg (fexpm1 (fmul (Fin (of_int t)) (flog1p (fneg p)))))
            (fdiv (flog (fdiv (fadd (Fin (of_int c)) (Fin 2)) (fadd (Fin (of_int c)) (Fin 1))))
               (Fin (ln (of_int range_max + 1)))))"
proof -
  define q :: real where
    "q = ln ((of_int c + 2) / (of_int c + 1)) / ln (of_int range_max + 1)"
  have c: "(0 :: real) \<le> of_int c" "(1 :: real) \<le> of_int range_max"
    using assms(1,2) by simp_all
  have "ln (of_int range_max + 1 :: real) \<noteq> 0"
    using c(2) by simp
  then have eq: "fdiv (flog (fdiv (fadd (Fin (of_int c)) (Fin 2)) (fadd (Fin (of_int c)) (Fin 1))))
               (Fin (ln (of_int range_max + 1))) = Fin q"
    unfolding q_def using c(1) by (intro prob_elem_Fin) simp_all
  have q: "0 \<le> q" "q \<le> 1"
    unfolding q_def using class_prob_bounds [OF c] by simp_all
  show ?thesis
    unfolding eq by (rule count_elem_bounded [OF q assms(3,4)])
qed


lemma list_all_mapI: "(\<And>v. v \<in> set xs \<Longrightarrow> P (f v)) \<Longrightarrow> list_all P (map f xs)"
  by (induction xs) simp_all

lemma vals_count_of_classes:
  "vals (prob_helper t n (base_prob lr (astype cast a Float64))) =
     map (\<lambda>v. (\<lambda>p. if t = n then fmul p (Fin (of_int n))
                    else fneg (fexpm1 (fmul (Fin (of_int t)) (flog1p (fneg p)))))
               (fdiv (flog (fdiv (fadd (cast Float64 v) (Fin 2)) (fadd (cast Float64 v) (Fin 1))))
                  (Fin lr)))
       (vals a)"
  by (simp only: vals_prob_helper vals_base_prob astype_simps map_map o_def)

lemma counts_of_classes_bounded:
  assumes "\<forall>v\<in>set (vals a). \<exists>c. v = Fin (of_int c) \<and> 0 \<le> c \<and> c < range_max"
    and "\<forall>c. 0 \<le> c \<and> c < range_max \<longrightarrow> cast Float64 (Fin (of_int c)) = Fin (of_int c)"
    and "1 \<le> n" "n \<le> t"
  shows "list_all (finite_between 0 (of_int n))
           (vals (prob_helper t n (base_prob (ln (of_int range_max + 1)) (astype cast a Float64))))"
  unfolding vals_count_of_classes
proof (rule list_all_mapI)
  fix v
  assume "v \<in> set (vals a)"
  then obtain c where c: "v = Fin (of_int c)" "0 \<le> c" "c < range_max"
    using assms(1) by blast
  have "cast Float64 (Fin (of_int c)) = Fin (of_int c)"
    using assms(2) c(2,3) by blast
  then have eq: "cast Float64 v = Fin (of_int c)"
    unfolding c(1) .
  show "finite_between 0 (of_int n)
          ((\<lambda>p. if t = n then fmul p (Fin (of_int n))
                 else fneg (fexpm1 (fmul (Fin (of_int t)) (flog1p (fneg p)))))
            (fdiv (flog (fdiv (fadd (cast Float64 v) (Fin 2)) (fadd (cast Float64 v) (Fin 1))))
               (Fin (ln (of_int range_max + 1)))))"
    unfolding eq by (rule class_count_bounded [OF c(2,3) assms(3,4)])
qed

text \<open>
  Claim C7. When the true classes and the sampled classes lie in \<open>[0, range_max)\<close>, the
  conversion to float64 represents these class indices exactly and the number of tries is
  at least \<open>num_sampled \<ge> 1\<close>, every entry of the two expected counts computed by the call
  is finite and lies between 0 and \<open>num_sampled\<close>. The same holds for the returned arrays
  when the conversion to the configured element type keeps finite values of that interval
  inside it. This covers the largest index \<open>range_max - 1\<close> and any number of tries.
\<close>

theorem expected_counts_bounded:
  assumes init: "LogUniformSampler_init range_max n dt seed = Inr s0"
    and s: "s = s0\<lparr>csampler_of := cs\<rparr>"
    and su: "sample_unique U cs n = Some (Inr ((sampled, attempts), cs'))"
    and n: "1 \<le> n" "n \<le> attempts"
    and sampled: "\<forall>c\<in>set sampled. 0 \<le> c \<and> c < range_max"
    and tc: "\<forall>v\<in>set (vals tc). \<exists>c. v = Fin (of_int c) \<and> 0 \<le> c \<and> c < range_max"
    and exact: "\<forall>c. 0 \<le> c \<and> c < range_max \<longrightarrow> cast Float64 (Fin (of_int c)) = Fin (of_int c)"
  shows "\<exists>sc ct cst s'.
           call_counts U cast s tc = Some (Inr ((sc, attempts, ct, cst), s')) \<and>
           list_all (finite_between 0 (of_int n)) (vals ct) \<and>
           list_all (finite_between 0 (of_int n)) (vals cst) \<and>
           ((\<forall>v. finite_between 0 (of_int n) v
                 \<longrightarrow> finite_between 0 (of_int n) (cast (out_dtype s) v)) \<longrightarrow>
            (\<exists>sc' ct' cst'.
               call U cast s tc = Some (Inr ((sc', ct', cst'), s')) \<and>
               list_all (finite_between 0 (of_int n)) (vals ct') \<and>
               list_all (finite_between 0 (of_int n)) (vals cst')))"
proof -
  have s_fields: "csampler_of s = cs" "num_sampled s = n"
    "log_range s = ln (of_int range_max + 1)"
    using init s by (simp_all add: init_Inr)
  have su': "sample_unique U (csampler_of s) (num_sampled s)
               = Some (Inr ((sampled, attempts), cs'))"
    using su s_fields by simp
  define ct where "ct = prob_helper attempts n
      (base_prob (ln (of_int range_max + 1)) (astype cast tc Float64))"
  define sc where "sc = nd_array sampled (ctx tc) Int64"
  define cst where "cst = prob_helper attempts n
      (base_prob (ln (of_int range_max + 1)) (astype cast sc Float64))"
  have cc: "call_counts U cast s tc = Some (Inr ((sc, attempts, ct, cst), s\<lparr>csampler_of := cs'\<rparr>))"
    using call_counts_Inr [OF su', of cast tc] by (simp add: s_fields ct_def sc_def cst_def)
  have b1: "list_all (finite_between 0 (of_int n)) (vals ct)"
    unfolding ct_def
    by (rule counts_of_classes_bounded [where a = tc and cast = cast, OF tc exact n])
  have "\<forall>v\<in>set (vals sc). \<exists>c. v = Fin (of_int c) \<and> 0 \<le> c \<and> c < range_max"
    using sampled by (auto simp add: sc_def nd_array_def)
  then have b2: "list_all (finite_between 0 (of_int n)) (vals cst)"
    unfolding cst_def
    by (rule counts_of_classes_bounded [where a = sc and cast = cast, OF _ exact n])
  have out: "\<exists>sc' ct' cst'.
               call U cast s tc = Some (Inr ((sc', ct', cst'), s\<lparr>csampler_of := cs'\<rparr>)) \<and>
               list_all (finite_between 0 (of_int n)) (vals ct') \<and>
               list_all (finite_between 0 (of_int n)) (vals cst')"
    if "\<forall>v. finite_between 0 (of_int n) v
              \<longrightarrow> finite_between 0 (of_int n) (cast (out_dtype s) v)"
  proof -
    have l1: "list_all (finite_between 0 (of_int n)) (map (cast (out_dtype s)) (vals ct))"
      using b1 that by (intro list_all_mapI) (simp add: list_all_iff)
    have l2: "list_all (finite_between 0 (of_int n)) (map (cast (out_dtype s)) (vals cst))"
      using b2 that by (intro list_all_mapI) (simp add: list_all_iff)
    have c: "call U cast s tc =
        Some (Inr ((astype cast sc (out_dtype s), astype cast ct (out_dtype s),
                    astype cast cst (out_dtype s)), s\<lparr>csampler_of := cs'\<rparr>))"
      by (simp add: call_def cc)
    show ?thesis
      apply (rule exI [where x = "astype cast sc (out_dtype s)"])
      apply (rule exI [where x = "astype cast ct (out_dtype s)"])
      apply (rule exI [where x = "astype cast cst (out_dtype s)"])
      apply (simp only: astype_simps c l1 l2 simp_thms)
      done
  qed
  show ?thesis
    apply (rule exI [where x = sc])
    apply (rule exI [where x = ct])
    apply (rule exI [where x = cst])
    apply (rule exI [where x = "s\<lparr>csampler_of := cs'\<rparr>"])
    apply (intro conjI impI)
       apply (rule cc)
      apply (rule b1)
     apply (rule b2)
    apply (erule out)
    done
qed


theorem expected_counts_bounded_witness:
  "\<exists>sc ct cst s'.
     call_counts (\<lambda>_ i. if i < 2 then 0 else 1) (\<lambda>d v. v)
       \<lparr>num_sampled = 2, log_range = ln 3, csampler_of = csampler_init 2 0, out_dtype = Float32\<rparr>
       \<lparr>shape = [2], ctx = Cpu 0, dtype = Int64, vals = [Fin 0, Fin 1]\<rparr>
     = Some (Inr ((sc, 3, ct, cst), s')) \<and>
     list_all (finite_between 0 2) (vals ct) \<and>
     list_all (finite_between 0 2) (vals cst) \<and>
     (\<exists>sc' ct' cst'.
        call (\<lambda>_ i. if i < 2 then 0 else 1) (\<lambda>d v. v)
          \<lparr>num_sampled = 2, log_range = ln 3, csampler_of = csampler_init 2 0,
           out_dtype = Float32\<rparr>
          \<lparr>shape = [2], ctx = Cpu 0, dtype = Int64, vals = [Fin 0, Fin 1]\<rparr>
        = Some (Inr ((sc', ct', cst'), s')) \<and>
        list_all (finite_between 0 2) (vals ct') \<and>
        list_all (finite_between 0 2) (vals cst'))"
proof -
  have init: "LogUniformSampler_init 2 2 None 0 =
      Inr \<lparr>num_sampled = 2, log_range = ln 3, csampler_of = csampler_init 2 0,
           out_dtype = Float32\<rparr>"
    by (simp add: LogUniformSampler_init_def)
  have s: "\<lparr>num_sampled = 2, log_range = ln 3, csampler_of = csampler_init 2 0,
            out_dtype = Float32\<rparr>
      = \<lparr>num_sampled = 2, log_range = ln 3, csampler_of = csampler_init 2 0,
         out_dtype = Float32\<rparr>\<lparr>csampler_of := csampler_init 2 0\<rparr>"
    by simp
  have sampled: "\<forall>c\<in>set [0, 1 :: int]. 0 \<le> c \<and> c < 2"
    by simp
  have tc: "\<forall>v\<in>set (vals \<lparr>shape = [2], ctx = Cpu 0, dtype = Int64, vals = [Fin 0, Fin 1]\<rparr>).
              \<exists>c. v = Fin (of_int c) \<and> 0 \<le> c \<and> c < (2 :: int)"
    by simp
  have exact: "\<forall>c. 0 \<le> c \<and> c < (2 :: int)
      \<longrightarrow> (\<lambda>d v. v) Float64 (Fin (of_int c)) = Fin (of_int c)"
    by simp
  have out: "\<forall>v. finite_between 0 (of_int 2) v \<longrightarrow> finite_between 0 (of_int 2)
       ((\<lambda>d v. v) (out_dtype \<lparr>num_sampled = 2, log_range = ln 3,
           csampler_of = csampler_init 2 0, out_dtype = Float32\<rparr>) v)"
    by simp
  show ?thesis
    using expected_counts_bounded [OF init s sample_unique_reject [of 0] _ _ sampled tc exact]
      out
    by simp
qed

section \<open>Fast path against the general formula\<close>








end
